theory Spec2Isabelle
  imports Complex_Main
begin

section \<open>Python strings\<close>

text \<open>
  A Python \<open>str\<close> is a sequence of Unicode code points. Several literals of
  \<open>chatgptapi_translator.py\<close> lie outside the 8-bit range (the curly quotes of the
  \<open>better_translation\<close> pattern, the sample name in the translation guideline), so a string
  is modelled as the list of its code points; \<open>str\<close> reads an ASCII literal.
\<close>

type_synonym pystr = "nat list"

definition str :: "string \<Rightarrow> pystr" where
  "str s = map of_char s"

text \<open>
  \<open>str.isspace\<close>, \<open>str.strip()\<close> and the pattern class \<open>\s\<close> share one set of
  white-space code points; \<open>str.splitlines\<close> breaks at a subset of it.
\<close>

definition is_space :: "nat \<Rightarrow> bool" where
  "is_space c \<longleftrightarrow>
     (9 \<le> c \<and> c \<le> 13) \<or> (28 \<le> c \<and> c \<le> 32) \<or> c = 133 \<or> c = 160 \<or> c = 5760
     \<or> (8192 \<le> c \<and> c \<le> 8202) \<or> c = 8232 \<or> c = 8233 \<or> c = 8239 \<or> c = 8287
     \<or> c = 12288"

definition is_linebreak :: "nat \<Rightarrow> bool" where
  "is_linebreak c \<longleftrightarrow>
     (10 \<le> c \<and> c \<le> 13) \<or> (28 \<le> c \<and> c \<le> 30) \<or> c = 133 \<or> c = 8232 \<or> c = 8233"

text \<open>
  The pattern class \<open>\d\<close>. On \<open>str\<close> patterns it also accepts the decimal digits of other
  scripts (Unicode category Nd); the model covers the ASCII digits, so it reads texts whose
  decimal digits are ASCII.
\<close>

definition is_digit :: "nat \<Rightarrow> bool" where
  "is_digit c \<longleftrightarrow> 48 \<le> c \<and> c \<le> 57"

text \<open>\<open>s.strip()\<close>: white space removed at both ends.\<close>

definition strip :: "pystr \<Rightarrow> pystr" where
  "strip s = rev (dropWhile is_space (rev (dropWhile is_space s)))"

text \<open>
  \<open>s.splitlines()\<close>: the text is cut at every line boundary, \<open>\r\n\<close> counting as one; the
  boundaries are dropped, and a boundary at the very end opens no further line.
\<close>

function splitlines :: "pystr \<Rightarrow> pystr list" where
  "splitlines s =
     (if s = [] then []
      else (case dropWhile (\<lambda>c. \<not> is_linebreak c) s of
              [] \<Rightarrow> [s]
            | [c] \<Rightarrow> [takeWhile (\<lambda>c. \<not> is_linebreak c) s]
            | c # d # r \<Rightarrow>
                takeWhile (\<lambda>c. \<not> is_linebreak c) s
                  # splitlines (if c = 13 \<and> d = 10 then r else d # r)))"
  by pat_completeness auto
termination
proof (relation "measure length", goal_cases)
  case 1
  show ?case by simp
next
  case (2 s c rest d r)
  have "length (dropWhile (\<lambda>c. \<not> is_linebreak c) s) \<le> length s"
    by (rule length_dropWhile_le)
  with 2 show ?case by (auto split: if_splits)
qed

declare splitlines.simps [simp del]


text \<open>\<open>sub in s\<close>, for a non-empty \<open>sub\<close> also \<open>s.find(sub) >= 0\<close>.\<close>

fun contains :: "pystr \<Rightarrow> pystr \<Rightarrow> bool" where
  "contains sub [] = (sub = [])"
| "contains sub (c # s) = (take (length sub) (c # s) = sub \<or> contains sub s)"

text \<open>
  \<open>s.split(sep)\<close> for a non-empty separator: the pieces between the occurrences of
  \<open>sep\<close>, found from the left without overlap. \<open>acc\<close> holds the piece being read, reversed.
  Python raises ValueError on an empty separator; the only separator of this program is
  a literal.
\<close>

function split_sep :: "pystr \<Rightarrow> pystr \<Rightarrow> pystr \<Rightarrow> pystr list" where
  "split_sep sep acc s =
     (case s of
        [] \<Rightarrow> [rev acc]
      | c # r \<Rightarrow>
          if take (length sep) s = sep then rev acc # split_sep sep [] (drop (length sep - 1) r)
          else split_sep sep (c # acc) r)"
  by pat_completeness auto
termination
  by (relation "measure (\<lambda>(sep, acc, s). length s)") auto

declare split_sep.simps [simp del]

text \<open>\<open>s.replace('\\n', '\n')\<close>: every backslash followed by \<open>n\<close> becomes a line feed.\<close>

fun replace_backslash_n :: "pystr \<Rightarrow> pystr" where
  "replace_backslash_n (c # d # s) =
     (if c = 92 \<and> d = 110 then 10 # replace_backslash_n s
      else c # replace_backslash_n (d # s))"
| "replace_backslash_n s = s"

section \<open>The response parser\<close>

text \<open>
  The comprehension of \<open>translate_and_split_lines\<close>:
  \<^verbatim>\<open>lines = result_str.splitlines()\<close>,
  \<^verbatim>\<open>[line.strip() for line in lines if line.strip() != ""]\<close>.
\<close>

definition split_lines :: "pystr \<Rightarrow> pystr list" where
  "split_lines result_str = map strip (filter (\<lambda>line. strip line \<noteq> []) (splitlines result_str))"

text \<open>
  The substitution of \<open>translate_list\<close>,
  \<^verbatim>\<open>re.sub(r"^(\(\d+\)|\d+\.|(\d+))\s*", "", s)\<close>.
  The pattern is anchored at the start of the string, so at most one match is replaced.
  The alternatives are tried in order; \<open>\d+\<close> and \<open>\s*\<close> are greedy, and since neither
  \<open>)\<close> nor \<open>.\<close> is a digit only the whole run of digits can be followed by either.
\<close>

definition strip_ordinal :: "pystr \<Rightarrow> pystr" where
  "strip_ordinal s =
     (case s of
        [] \<Rightarrow> s
      | c # r \<Rightarrow>
          if c = 40 then
            (case dropWhile is_digit r of
               [] \<Rightarrow> s
             | d # r' \<Rightarrow>
                 if takeWhile is_digit r \<noteq> [] \<and> d = 41 then dropWhile is_space r' else s)
          else if takeWhile is_digit s = [] then s
          else
            (case dropWhile is_digit s of
               [] \<Rightarrow> []
             | d # r' \<Rightarrow>
                 if d = 46 then dropWhile is_space r' else dropWhile is_space (d # r')))"



section \<open>The remote service and the translator's state\<close>

text \<open>
  A request as \<open>openai.ChatCompletion.create\<close> receives it: the credential in force
  (\<open>openai.api_key\<close>), \<open>engine=\<close> or \<open>model=\<close>, the messages as (role, content) pairs
  and the temperature.
\<close>

datatype target = Engine pystr | Model pystr

record request =
  req_key :: "pystr option"
  req_target :: target
  req_messages :: "(pystr \<times> pystr) list"
  req_temperature :: rat

record usage =
  prompt_tokens :: nat
  completion_tokens :: nat

text \<open>\<open>content\<close> is \<open>None\<close> when the message has no such key (\<open>.get("content", "")\<close>).\<close>

record choice =
  finish_reason :: pystr
  content :: "pystr option"

record completion =
  choices :: "choice list"
  model :: pystr
  usage :: usage

datatype error =
  ServiceError pystr
  | StopIteration
  | KeyError pystr
  | IndexError
  | ZeroDivisionError

text \<open>
  One call of the service either returns a completion or raises. With \<open>Raises e p\<close> the
  second component is whatever partial payload the service had produced when it failed.
  The service is opaque: its answer may depend on the request and on how many calls
  came before.
\<close>

datatype outcome = Returns completion | Raises error "completion option"

type_synonym service = "nat \<Rightarrow> request \<Rightarrow> outcome"

text \<open>
  The fields of \<open>ChatGPTAPI\<close> that \<open>get_translation\<close> and its callers read or write,
  the module global \<open>openai.api_key\<close>, and the effects on the outside: the requests
  sent, the durations handed to \<open>time.sleep\<close>, the records appended to
  \<open>log/long_text.txt\<close>. Output to the terminal is left out.

  \<open>prompt_spent\<close> and \<open>completion_spent\<close> start as the integer 0 and become floats at the
  first addition of a multiple of 1.5; they are modelled as exact rationals, which is
  what the floats hold as long as the totals stay below \<open>2^52\<close>.
\<close>

record translator =
  keys :: "pystr list"
  cursor :: nat
  api_key :: "pystr option"
  key_len :: nat
  language :: pystr
  deployment_id :: "pystr option"
  temperature :: rat
  prompt_spent :: rat
  completion_spent :: rat
  requests :: "request list"
  slept :: "nat list"
  long_text :: "pystr list"

text \<open>
  Modelled from the spec: \<open>Base.__init__\<close> (\<open>base_translator.py\<close>) is not among the
  sources; it sets \<open>self.keys\<close> and \<open>self.language\<close>. The spec's credential pool is
  "ordered, fixed-size", its cursor "advances exactly once per remote-call attempt,
  wrapping modulo pool size". The pool is the comma-separated \<open>key\<close>, as \<open>key_len\<close>
  counts it; \<open>cursor\<close> counts the calls of \<open>next\<close>.
\<close>

definition init :: "pystr \<Rightarrow> pystr \<Rightarrow> rat \<Rightarrow> translator" where
  "init key lang temp =
     \<lparr> keys = split_sep [44] [] key, cursor = 0, api_key = None,
       key_len = length (split_sep [44] [] key), language = lang, deployment_id = None,
       temperature = temp, prompt_spent = 0, completion_spent = 0, requests = [],
       slept = [], long_text = [] \<rparr>"

text \<open>\<open>set_deployment_id\<close>\<close>

definition set_deployment_id :: "pystr \<Rightarrow> translator \<Rightarrow> translator" where
  "set_deployment_id d s = s\<lparr>deployment_id := Some d\<rparr>"

text \<open>
  \<open>rotate_key\<close>: \<open>openai.api_key = next(self.keys)\<close>. \<open>next\<close> on the cycle of an empty
  pool raises StopIteration.
\<close>

definition rotate_key :: "translator \<Rightarrow> error + translator" where
  "rotate_key s =
     (if keys s = [] then Inl StopIteration
      else Inr (s\<lparr>api_key := Some (keys s ! (cursor s mod length (keys s))),
                  cursor := cursor s + 1\<rparr>))"

text \<open>\<open>time.sleep(d)\<close>\<close>

definition sleep :: "nat \<Rightarrow> translator \<Rightarrow> translator" where
  "sleep d s = s\<lparr>slept := slept s @ [d]\<rparr>"


section \<open>Building and routing the request\<close>

definition system_message :: pystr where
  "system_message =
     str ''You are a professional translator. You always translate accurately, fluently and reliably.''"

definition translation_prompt :: "pystr \<Rightarrow> pystr" where
  \<open>translation_prompt lang =
     10 # str ''Translation Guideline:'' @ 10 #
     str ''- Retain specific terms/names, put it after the translation in brackets, for example: "''
     @ [20052, 65288] @ str ''Joe'' @ [65289] @ str ''".'' @ 10 #
     str ''- Divide the translation into two parts and print each result:'' @ 10 #
     str ''1. Translate directly based on the content, without omitting any information.'' @ 10 #
     str ''2. Based on the first direct translation, rephrase it to make the content more easily understood and conform to ''
     @ lang @ str '' expression habits, while adhering to the original meaning.'' @ 10 #
     str ''Without any comment, return the result in the following python dict format:'' @ 10 #
     str ''[{"direct_translation": "direct translation here",'' @ 10 #
     str ''"better_translation": "better translation here",}]'' @ 10 #
     str ''Reply OK to this message and I'' @ 39 # str ''ll send you text to be translated to ''
     @ lang @ str '' afterwards.''\<close>

definition messages :: "pystr \<Rightarrow> pystr \<Rightarrow> (pystr \<times> pystr) list" where
  \<open>messages lang text =
     [(str ''system'', system_message),
      (str ''user'', translation_prompt lang),
      (str ''assistant'', str ''OK''),
      (str ''user'',
       str ''{"text": "'' @ text @ str ''","target_language": "'' @ lang @ str ''",}'')]\<close>

text \<open>
  \<open>create_chat_completion_2pass\<close>. \<open>count_tokens\<close> wraps the tokenizer of an outside
  library and is a parameter. \<open>if self.deployment_id:\<close> holds for a string that is
  neither \<open>None\<close> nor empty.
\<close>

definition create_chat_completion_2pass ::
  "service \<Rightarrow> (pystr \<Rightarrow> nat) \<Rightarrow> pystr \<Rightarrow> translator \<Rightarrow> outcome \<times> translator" where
  "create_chat_completion_2pass svc count_tokens text s =
     (let tgt =
        (case deployment_id s of
           Some d \<Rightarrow>
             if d \<noteq> [] then Engine d
             else if count_tokens (system_message @ translation_prompt (language s) @ text @ str ''OK'')
                       \<le> 1200
                  then Model (str ''gpt-3.5-turbo'') else Model (str ''gpt-3.5-turbo-16k'')
         | None \<Rightarrow>
             if count_tokens (system_message @ translation_prompt (language s) @ text @ str ''OK'')
                  \<le> 1200
             then Model (str ''gpt-3.5-turbo'') else Model (str ''gpt-3.5-turbo-16k''));
        req = \<lparr> req_key = api_key s, req_target = tgt,
                req_messages = messages (language s) text, req_temperature = temperature s \<rparr>
      in (svc (length (requests s)) req, s\<lparr>requests := requests s @ [req]\<rparr>))"

section \<open>One attempt: \<open>get_translation\<close>\<close>

text \<open>
  The search for
  \<^verbatim>\<open>"better_translation":[\s\n]*[Q]([\s\S]*?)[Q]?,?[\s\n]*}\<close>
  where \<open>Q\<close> is one of the three double quotes U+201C, U+0022, U+201D. The classes
  quote, comma, white space and brace are disjoint, so each greedy item has one way to
  match; the lazy group takes the shortest text after which the tail matches.
\<close>

definition is_quote :: "nat \<Rightarrow> bool" where
  "is_quote c \<longleftrightarrow> c = 8220 \<or> c = 34 \<or> c = 8221"

definition tail_matches :: "pystr \<Rightarrow> bool" where
  "tail_matches s =
     (let s1 = (case s of [] \<Rightarrow> s | c # r \<Rightarrow> if is_quote c then r else s);
          s2 = (case s1 of [] \<Rightarrow> s1 | c # r \<Rightarrow> if c = 44 then r else s1)
      in case dropWhile is_space s2 of [] \<Rightarrow> False | c # r \<Rightarrow> c = 125)"

fun lazy_group :: "pystr \<Rightarrow> pystr \<Rightarrow> pystr option" where
  "lazy_group acc [] = (if tail_matches [] then Some (rev acc) else None)"
| "lazy_group acc (c # r) =
     (if tail_matches (c # r) then Some (rev acc) else lazy_group (c # acc) r)"

definition match_here :: "pystr \<Rightarrow> pystr option" where
  \<open>match_here s =
     (if take (length (str ''"better_translation":'')) s = str ''"better_translation":'' then
        (case dropWhile is_space (drop (length (str ''"better_translation":'')) s) of
           [] \<Rightarrow> None
         | q # r \<Rightarrow> if is_quote q then lazy_group [] r else None)
      else None)\<close>

fun search_better_translation :: "pystr \<Rightarrow> pystr option" where
  "search_better_translation [] = match_here []"
| "search_better_translation (c # s) =
     (case match_here (c # s) of
        Some g \<Rightarrow> Some g
      | None \<Rightarrow> search_better_translation s)"

text \<open>
  The handler of \<open>except Exception\<close> in \<open>get_translation\<close>, on the local variable
  \<open>completion\<close>; \<open>None\<close> is the empty dict it is initialised with. The result says
  whether the exception is raised again.
\<close>

definition reraises :: "completion option \<Rightarrow> bool" where
  \<open>reraises completion =
     (case completion of
        None \<Rightarrow> True
      | Some c \<Rightarrow>
          if choices c = [] then True
          else finish_reason (last (choices c)) \<noteq> str ''length'')\<close>

text \<open>The lines under \<open># Calculate fare\<close>.\<close>

definition calculate_fare :: "completion \<Rightarrow> translator \<Rightarrow> translator" where
  "calculate_fare c s =
     (if contains (str ''16k'') (model c) then
        s\<lparr>prompt_spent := prompt_spent s + of_nat (prompt_tokens (usage c)) * 3,
          completion_spent := completion_spent s + of_nat (completion_tokens (usage c)) * 4\<rparr>
      else
        s\<lparr>prompt_spent := prompt_spent s + of_nat (prompt_tokens (usage c)) * (3 / 2),
          completion_spent := completion_spent s + of_nat (completion_tokens (usage c)) * 2\<rparr>)"

text \<open>The record \<open>print(..., file=f)\<close> appends to \<open>log/long_text.txt\<close>.\<close>

definition long_text_record :: "pystr \<Rightarrow> pystr" where
  "long_text_record text =
     str ''=================================================='' @ 10 #
     str ''The total token is too long and cannot be completely translated'' @ [10, 10]
     @ text @ [10, 10]"

text \<open>
  \<open>get_translation\<close> after its \<open>try\<close> statement, on the value of \<open>completion\<close> at that
  point.
\<close>

definition after_try :: "completion option \<Rightarrow> pystr \<Rightarrow> translator \<Rightarrow> (error + pystr) \<times> translator" where
  \<open>after_try completion text s =
     (case completion of
        None \<Rightarrow> (Inl (KeyError (str ''model'')), s)
      | Some c \<Rightarrow>
          (let s1 = calculate_fare c s in
           if choices c = [] then (Inl IndexError, s1)
           else
             (let choice = last (choices c);
                  response_text = (case content choice of None \<Rightarrow> [] | Some t \<Rightarrow> t);
                  t_text = (case search_better_translation response_text of
                              Some g \<Rightarrow> g
                            | None \<Rightarrow> response_text);
                  s2 = (if finish_reason choice = str ''length''
                        then s1\<lparr>long_text := long_text s1 @ [long_text_record text]\<rparr>
                        else s1)
              in (Inr (replace_backslash_n t_text), s2))))\<close>

text \<open>
  \<open>get_translation\<close>. The assignment \<open>completion = self.create_chat_completion_2pass(text)\<close>
  takes place only when the call returns; when it raises, the handler sees the
  \<open>completion\<close> of the line before the \<open>try\<close>.
\<close>

definition get_translation ::
  "service \<Rightarrow> (pystr \<Rightarrow> nat) \<Rightarrow> pystr \<Rightarrow> translator \<Rightarrow> (error + pystr) \<times> translator" where
  "get_translation svc count_tokens text s =
     (case rotate_key s of
        Inl e \<Rightarrow> (Inl e, s)
      | Inr s1 \<Rightarrow>
          (let completion = None in
           case create_chat_completion_2pass svc count_tokens text s1 of
             (Returns c, s2) \<Rightarrow> after_try (Some c) text s2
           | (Raises e partial, s2) \<Rightarrow>
               if reraises completion then (Inl e, s2) else after_try completion text s2))"

section \<open>The attempt loop: \<open>translate\<close>\<close>

definition max_attempts :: nat where
  "max_attempts = 3"

text \<open>
  The \<open>while\<close> loop of \<open>translate\<close>, on \<open>attempt_count\<close> and \<open>t_text\<close>.
  \<open>int(60 / self.key_len)\<close> is \<open>60 div key_len\<close> (the float quotient of 60 by a positive
  integer is never rounded across an integer) and raises ZeroDivisionError for 0, inside
  the handler.
\<close>

function translate_loop ::
  "service \<Rightarrow> (pystr \<Rightarrow> nat) \<Rightarrow> pystr \<Rightarrow> nat \<Rightarrow> pystr \<Rightarrow> translator
     \<Rightarrow> (error + pystr) \<times> translator" where
  \<open>translate_loop svc count_tokens text attempt_count t_text s =
     (if attempt_count < max_attempts then
        (case get_translation svc count_tokens text s of
           (Inr t, s1) \<Rightarrow>
             if contains (str ''"direct_trans":'') t \<and> attempt_count = 0 then
               translate_loop svc count_tokens text (attempt_count + 1) t s1
             else if contains (str ''_trans":'') t \<and> attempt_count > 0 then
               (Inr (last (split_sep (str ''_trans":'') [] t)), s1)
             else (Inr t, s1)
         | (Inl e, s1) \<Rightarrow>
             if key_len s1 = 0 then (Inl ZeroDivisionError, s1)
             else
               (let s2 = sleep (60 div key_len s1) s1 in
                if attempt_count + 1 = max_attempts then (Inl e, s2)
                else translate_loop svc count_tokens text (attempt_count + 1) t_text s2))
      else (Inr t_text, s))\<close>
  by pat_completeness auto
termination
  by (relation "measure (\<lambda>(svc, count_tokens, text, attempt_count, t_text, s).
        max_attempts - attempt_count)") auto

declare translate_loop.simps [simp del]

definition translate ::
  "service \<Rightarrow> (pystr \<Rightarrow> nat) \<Rightarrow> pystr \<Rightarrow> translator \<Rightarrow> (error + pystr) \<times> translator" where
  "translate svc count_tokens text s = translate_loop svc count_tokens text 0 [] s"

definition translate_and_split_lines ::
  "service \<Rightarrow> (pystr \<Rightarrow> nat) \<Rightarrow> pystr \<Rightarrow> translator \<Rightarrow> (error + pystr list) \<times> translator" where
  "translate_and_split_lines svc count_tokens text s =
     (case translate svc count_tokens text s of
        (Inl e, s1) \<Rightarrow> (Inl e, s1)
      | (Inr result_str, s1) \<Rightarrow> (Inr (split_lines result_str), s1))"

section \<open>The reconciler: \<open>get_best_result_list\<close>\<close>

text \<open>The \<open>while\<close> loop of \<open>get_best_result_list\<close>.\<close>

function retry_loop ::
  "service \<Rightarrow> (pystr \<Rightarrow> nat) \<Rightarrow> nat \<Rightarrow> pystr \<Rightarrow> nat \<Rightarrow> nat \<Rightarrow> pystr list \<Rightarrow> pystr list \<Rightarrow> nat
     \<Rightarrow> translator \<Rightarrow> (error + pystr list \<times> nat) \<times> translator" where
  "retry_loop svc count_tokens plist_len new_str sleep_dur max_retries
       best_result_list result_list retry_count s =
     (if retry_count < max_retries \<and> length result_list \<noteq> plist_len then
        (case translate_and_split_lines svc count_tokens new_str (sleep sleep_dur s) of
           (Inl e, s1) \<Rightarrow> (Inl e, s1)
         | (Inr r, s1) \<Rightarrow>
             retry_loop svc count_tokens plist_len new_str sleep_dur max_retries
               (if length r = plist_len
                   \<or> (length best_result_list < length r \<and> length r \<le> plist_len)
                   \<or> (length r < length best_result_list \<and> length best_result_list > plist_len)
                then r else best_result_list)
               r (retry_count + 1) s1)
      else (Inr (best_result_list, retry_count), s))"
  by pat_completeness auto
termination
  by (relation "measure (\<lambda>(svc, count_tokens, plist_len, new_str, sleep_dur, max_retries,
        best_result_list, result_list, retry_count, s). max_retries - retry_count)") auto

declare retry_loop.simps [simp del]


definition get_best_result_list ::
  "service \<Rightarrow> (pystr \<Rightarrow> nat) \<Rightarrow> nat \<Rightarrow> pystr \<Rightarrow> nat \<Rightarrow> pystr list \<Rightarrow> nat \<Rightarrow> translator
     \<Rightarrow> (error + pystr list \<times> nat) \<times> translator" where
  "get_best_result_list svc count_tokens plist_len new_str sleep_dur result_list max_retries s =
     (if length result_list = plist_len then (Inr (result_list, 0), s)
      else retry_loop svc count_tokens plist_len new_str sleep_dur max_retries
             result_list result_list 0 s)"

section \<open>Sample data\<close>

text \<open>Concrete inputs on which the theorems below are instantiated.\<close>

definition sample_translator :: translator where
  "sample_translator = init (str ''k1,k2'') (str ''German'') 1"

definition sample_reply :: pystr where
  \<open>sample_reply =
     str ''[{"direct_translation": "x", "better_translation": "(1) eins'' @ [92, 110]
     @ str ''(2) zwei",}]''\<close>



definition sample_completion :: completion where
  "sample_completion =
     \<lparr> choices = [\<lparr> finish_reason = str ''stop'', content = Some sample_reply \<rparr>],
       model = str ''gpt-3.5-turbo-16k'',
       usage = \<lparr> prompt_tokens = 100, completion_tokens = 50 \<rparr> \<rparr>"

definition truncated_completion :: completion where
  "truncated_completion =
     \<lparr> choices = [\<lparr> finish_reason = str ''length'', content = Some (str ''(1) eins'') \<rparr>],
       model = str ''gpt-3.5-turbo'',
       usage = \<lparr> prompt_tokens = 100, completion_tokens = 50 \<rparr> \<rparr>"

definition steady_service :: service where
  "steady_service i req = Returns sample_completion"

definition truncating_service :: service where
  "truncating_service i req = Returns truncated_completion"

definition failing_service :: service where
  "failing_service i req = Raises (ServiceError (str ''timeout'')) (Some truncated_completion)"

definition few_tokens :: "pystr \<Rightarrow> nat" where
  "few_tokens t = 700"

definition many_tokens :: "pystr \<Rightarrow> nat" where
  "many_tokens t = 1201"

section \<open>Lemmas about the parser\<close>















section \<open>Lemmas about one attempt and the attempt loop\<close>

lemma create_chat_completion_2pass_state:
  "\<exists>req. create_chat_completion_2pass svc count_tokens text s
            = (svc (length (requests s)) req, s\<lparr>requests := requests s @ [req]\<rparr>)
          \<and> req_key req = api_key s"
  unfolding create_chat_completion_2pass_def Let_def
  by (rule exI, rule conjI, rule refl) simp

lemma calculate_fare_frame:
  "keys (calculate_fare c s) = keys s \<and> key_len (calculate_fare c s) = key_len s
   \<and> cursor (calculate_fare c s) = cursor s \<and> requests (calculate_fare c s) = requests s
   \<and> slept (calculate_fare c s) = slept s \<and> long_text (calculate_fare c s) = long_text s"
  by (simp add: calculate_fare_def)

lemma calculate_fare_mono:
  "prompt_spent s \<le> prompt_spent (calculate_fare c s)
   \<and> completion_spent s \<le> completion_spent (calculate_fare c s)"
  by (simp add: calculate_fare_def)

lemma after_try_frame:
  assumes "after_try completion text s = (r, s')"
  shows "keys s' = keys s \<and> key_len s' = key_len s \<and> cursor s' = cursor s
         \<and> requests s' = requests s \<and> slept s' = slept s
         \<and> prompt_spent s \<le> prompt_spent s' \<and> completion_spent s \<le> completion_spent s'"
proof (cases completion)
  case None
  with assms show ?thesis by (simp add: after_try_def)
next
  case (Some c)
  with assms have "s' = calculate_fare c s
      \<or> s' = (calculate_fare c s)\<lparr>long_text := long_text (calculate_fare c s) @ [long_text_record text]\<rparr>"
    by (auto simp: after_try_def Let_def split: if_splits)
  with calculate_fare_frame [of c s] calculate_fare_mono [of s c] show ?thesis by auto
qed

lemma get_translation_effect:
  assumes "keys s \<noteq> []" and "get_translation svc count_tokens text s = (r, s')"
  shows "keys s' = keys s \<and> key_len s' = key_len s \<and> cursor s' = cursor s + 1
         \<and> (\<exists>req. requests s' = requests s @ [req]
                \<and> req_key req = Some (keys s ! (cursor s mod length (keys s))))
         \<and> slept s' = slept s
         \<and> prompt_spent s \<le> prompt_spent s' \<and> completion_spent s \<le> completion_spent s'"
proof -
  let ?s1 = "s\<lparr>api_key := Some (keys s ! (cursor s mod length (keys s))), cursor := cursor s + 1\<rparr>"
  from assms(1) have rk: "rotate_key s = Inr ?s1" by (simp add: rotate_key_def)
  obtain req where cr: "create_chat_completion_2pass svc count_tokens text ?s1
      = (svc (length (requests ?s1)) req, ?s1\<lparr>requests := requests ?s1 @ [req]\<rparr>)"
    and rq: "req_key req = api_key ?s1"
    using create_chat_completion_2pass_state by blast
  let ?s2 = "?s1\<lparr>requests := requests ?s1 @ [req]\<rparr>"
  from rq have base: "keys ?s2 = keys s \<and> key_len ?s2 = key_len s \<and> cursor ?s2 = cursor s + 1
      \<and> requests ?s2 = requests s @ [req]
      \<and> req_key req = Some (keys s ! (cursor s mod length (keys s)))
      \<and> slept ?s2 = slept s
      \<and> prompt_spent ?s2 = prompt_spent s \<and> completion_spent ?s2 = completion_spent s"
    by simp
  show ?thesis
  proof (cases "svc (length (requests ?s1)) req")
    case (Returns c)
    with assms(2) rk cr have "after_try (Some c) text ?s2 = (r, s')"
      by (simp add: get_translation_def)
    from after_try_frame [OF this] base show ?thesis by auto
  next
    case (Raises e partial)
    with assms(2) rk cr have "s' = ?s2" by (simp add: get_translation_def reraises_def)
    with base show ?thesis by auto
  qed
qed


lemma get_translation_mono:
  "prompt_spent s \<le> prompt_spent (snd (get_translation svc count_tokens text s))
   \<and> completion_spent s \<le> completion_spent (snd (get_translation svc count_tokens text s))"
proof (cases "keys s = []")
  case True
  then show ?thesis by (simp add: get_translation_def rotate_key_def)
next
  case False
  from get_translation_effect [OF False, of svc count_tokens "text"] show ?thesis
    by (cases "get_translation svc count_tokens text s") simp
qed



















section \<open>Lemmas about the sample data\<close>

lemma sample_translator_eq:
  "sample_translator =
     \<lparr> keys = [str ''k1'', str ''k2''], cursor = 0, api_key = None,
       key_len = 2, language = str ''German'', deployment_id = None,
       temperature = 1, prompt_spent = 0, completion_spent = 0, requests = [],
       slept = [], long_text = [] \<rparr>"
  by (simp add: sample_translator_def init_def split_sep.simps str_def)








lemma sample_rotate:
  "rotate_key sample_translator = Inr (sample_translator\<lparr>api_key := Some (str ''k1''), cursor := 1\<rparr>)"
  by (simp add: sample_translator_eq rotate_key_def)

lemma steady_returns:
  assumes "keys s \<noteq> []"
  shows "\<exists>s1 s2. rotate_key s = Inr s1
           \<and> create_chat_completion_2pass steady_service count_tokens text s1
               = (Returns sample_completion, s2)"
  using assms
  by (simp add: rotate_key_def create_chat_completion_2pass_def steady_service_def Let_def)

lemma truncating_get_translation:
  "get_translation truncating_service few_tokens (str ''(1) one'') sample_translator
     = (Inr (str ''(1) eins''),
        sample_translator
          \<lparr>api_key := Some (str ''k1''), cursor := 1,
            prompt_spent := 150, completion_spent := 100,
            requests := [\<lparr> req_key = Some (str ''k1''), req_target = Model (str ''gpt-3.5-turbo''),
                           req_messages = messages (str ''German'') (str ''(1) one''),
                           req_temperature = 1 \<rparr>],
            long_text := [long_text_record (str ''(1) one'')]\<rparr>)"
  by (simp add: sample_translator_eq get_translation_def rotate_key_def
        create_chat_completion_2pass_def truncating_service_def truncated_completion_def
        after_try_def calculate_fare_def few_tokens_def match_here_def str_def Let_def)

section \<open>The reconciler's acceptance rule\<close>



section \<open>A raising call and its partial payload\<close>

text \<open>
  C2. The claim: when the remote call raises and a partial payload with finish reason
  \<open>length\<close> exists, \<open>get_translation\<close> does not raise again, uses the partial text and
  appends the source text to the long-text log. The code does not: the payload of a call
  that raised never reaches the variable the handler inspects. On the sample service that
  raises with such a payload, \<open>get_translation\<close> raises the service's exception and writes
  nothing to the log, whereas the same payload returned normally gives its text and one
  log record.
\<close>

theorem get_translation_partial_payload_lost:
  "(\<forall>i req. failing_service i req
        = Raises (ServiceError (str ''timeout'')) (Some truncated_completion))
   \<and> finish_reason (last (choices truncated_completion)) = str ''length''
   \<and> fst (get_translation failing_service few_tokens (str ''(1) one'') sample_translator)
       = Inl (ServiceError (str ''timeout''))
   \<and> long_text (snd (get_translation failing_service few_tokens (str ''(1) one'') sample_translator))
       = []
   \<and> fst (get_translation truncating_service few_tokens (str ''(1) one'') sample_translator)
       = Inr (str ''(1) eins'')
   \<and> long_text (snd (get_translation truncating_service few_tokens (str ''(1) one'')
                       sample_translator))
       = [long_text_record (str ''(1) one'')]"
proof -
  have "fst (get_translation failing_service few_tokens (str ''(1) one'') sample_translator)
       = Inl (ServiceError (str ''timeout''))
   \<and> long_text (snd (get_translation failing_service few_tokens (str ''(1) one'') sample_translator))
       = []"
    by (simp add: sample_translator_eq get_translation_def rotate_key_def
          create_chat_completion_2pass_def failing_service_def reraises_def Let_def)
  moreover have "finish_reason (last (choices truncated_completion)) = str ''length''"
    by (simp add: truncated_completion_def)
  ultimately show ?thesis
    by (simp add: truncating_get_translation failing_service_def)
qed

text \<open>
  C3. Whenever \<open>create_chat_completion_2pass\<close> raises, whatever partial payload the
  service had, \<open>get_translation\<close> raises the same exception again: the handler sees the
  empty \<open>completion\<close>. Nothing is logged and nothing is added to the cost totals.
\<close>

theorem get_translation_reraises:
  assumes "rotate_key s = Inr s1"
    and "create_chat_completion_2pass svc count_tokens text s1 = (Raises e partial, s2)"
  shows "get_translation svc count_tokens text s = (Inl e, s2)
         \<and> long_text s2 = long_text s
         \<and> prompt_spent s2 = prompt_spent s \<and> completion_spent s2 = completion_spent s"
proof -
  from assms(1) have s1: "long_text s1 = long_text s \<and> prompt_spent s1 = prompt_spent s
      \<and> completion_spent s1 = completion_spent s"
    by (auto simp: rotate_key_def split: if_splits)
  from create_chat_completion_2pass_state [of svc count_tokens "text" s1] assms(2)
  obtain req where "s2 = s1\<lparr>requests := requests s1 @ [req]\<rparr>" by auto
  with s1 assms show ?thesis by (simp add: get_translation_def reraises_def)
qed

theorem get_translation_reraises_witness:
  "rotate_key sample_translator
     = Inr (sample_translator\<lparr>api_key := Some (str ''k1''), cursor := 1\<rparr>)
   \<and> fst (create_chat_completion_2pass failing_service few_tokens (str ''(1) one'')
            (sample_translator\<lparr>api_key := Some (str ''k1''), cursor := 1\<rparr>))
       = Raises (ServiceError (str ''timeout'')) (Some truncated_completion)
   \<and> fst (get_translation failing_service few_tokens (str ''(1) one'') sample_translator)
       = Inl (ServiceError (str ''timeout''))"
proof -
  let ?s1 = "sample_translator\<lparr>api_key := Some (str ''k1''), cursor := 1\<rparr>"
  let ?cr = "create_chat_completion_2pass failing_service few_tokens (str ''(1) one'') ?s1"
  have f: "fst ?cr = Raises (ServiceError (str ''timeout'')) (Some truncated_completion)"
    by (simp add: create_chat_completion_2pass_def failing_service_def Let_def)
  then have cr: "?cr = (Raises (ServiceError (str ''timeout'')) (Some truncated_completion), snd ?cr)"
    by (metis prod.collapse)
  from get_translation_reraises [OF sample_rotate cr] sample_rotate f show ?thesis by simp
qed

section \<open>The attempt loop\<close>



section \<open>The bounded retry loop\<close>



text \<open>
  C6. If the initial list already has the target length, \<open>get_best_result_list\<close> returns
  it unchanged with retry count 0 and leaves the state as it was: no sleep, no call of
  the service.
\<close>

theorem get_best_result_list_immediate:
  "length result_list = plist_len \<Longrightarrow>
   get_best_result_list svc count_tokens plist_len new_str sleep_dur result_list max_retries s
     = (Inr (result_list, 0), s)"
  by (simp add: get_best_result_list_def)

theorem get_best_result_list_immediate_witness:
  "length [str ''eins'', str ''zwei''] = (2::nat)
   \<and> get_best_result_list failing_service few_tokens 2 (str ''(1) one'') 6
        [str ''eins'', str ''zwei''] 15 sample_translator
     = (Inr ([str ''eins'', str ''zwei''], 0), sample_translator)"
  using get_best_result_list_immediate
    [of "[str ''eins'', str ''zwei'']" 2 failing_service few_tokens "str ''(1) one''" 6 15
       sample_translator]
  by simp

section \<open>Re-parsing the parser's output\<close>




section \<open>The cost ledger\<close>

text \<open>
  C8. When the call of the service returns a completion, \<open>get_translation\<close> adds
  \<open>prompt_tokens\<close> times the prompt rate to \<open>prompt_spent\<close> and \<open>completion_tokens\<close> times
  the completion rate to \<open>completion_spent\<close>; the rates are 3 and 4 when the reported
  model name contains \<open>16k\<close>, and 1.5 and 2 otherwise. The additions are made to the
  totals so far, and no call of \<open>get_translation\<close> lowers a total. (The witness: usage
  100 and 50 on the 16k model adds \<open>100 * 3\<close> and \<open>50 * 4\<close>, twice over two calls.)
\<close>

theorem cost_ledger:
  "(\<forall>s1 c s2. rotate_key s = Inr s1
        \<and> create_chat_completion_2pass svc count_tokens text s1 = (Returns c, s2) \<longrightarrow>
      prompt_spent (snd (get_translation svc count_tokens text s))
        = prompt_spent s
          + of_nat (prompt_tokens (usage c)) * (if contains (str ''16k'') (model c) then 3 else 3 / 2)
      \<and> completion_spent (snd (get_translation svc count_tokens text s))
        = completion_spent s
          + of_nat (completion_tokens (usage c)) * (if contains (str ''16k'') (model c) then 4 else 2))
   \<and> prompt_spent s \<le> prompt_spent (snd (get_translation svc count_tokens text s))
   \<and> completion_spent s \<le> completion_spent (snd (get_translation svc count_tokens text s))"
proof -
  have "prompt_spent (snd (get_translation svc count_tokens text s))
        = prompt_spent s
          + of_nat (prompt_tokens (usage c)) * (if contains (str ''16k'') (model c) then 3 else 3 / 2)
      \<and> completion_spent (snd (get_translation svc count_tokens text s))
        = completion_spent s
          + of_nat (completion_tokens (usage c)) * (if contains (str ''16k'') (model c) then 4 else 2)"
    if rk: "rotate_key s = Inr s1"
      and cr: "create_chat_completion_2pass svc count_tokens text s1 = (Returns c, s2)"
    for s1 c s2
  proof -
    from rk have s1: "prompt_spent s1 = prompt_spent s \<and> completion_spent s1 = completion_spent s"
      by (auto simp: rotate_key_def split: if_splits)
    from create_chat_completion_2pass_state [of svc count_tokens "text" s1] cr
    obtain req where "s2 = s1\<lparr>requests := requests s1 @ [req]\<rparr>" by auto
    with s1 have s2: "prompt_spent s2 = prompt_spent s \<and> completion_spent s2 = completion_spent s"
      by simp
    from rk cr have "get_translation svc count_tokens text s = after_try (Some c) text s2"
      by (simp add: get_translation_def)
    moreover have "prompt_spent (snd (after_try (Some c) text s2)) = prompt_spent (calculate_fare c s2)
        \<and> completion_spent (snd (after_try (Some c) text s2)) = completion_spent (calculate_fare c s2)"
      by (simp add: after_try_def Let_def)
    ultimately show ?thesis using s2 by (simp add: calculate_fare_def)
  qed
  with get_translation_mono [of s svc count_tokens "text"] show ?thesis by blast
qed

theorem cost_ledger_witness:
  "prompt_spent (snd (get_translation steady_service few_tokens (str ''(1) one'') sample_translator))
     = 100 * 3
   \<and> completion_spent (snd (get_translation steady_service few_tokens (str ''(1) one'') sample_translator))
     = 50 * 4
   \<and> prompt_spent (snd (get_translation steady_service few_tokens (str ''(1) one'')
        (snd (get_translation steady_service few_tokens (str ''(1) one'') sample_translator))))
     = 100 * 3 + 100 * 3
   \<and> completion_spent (snd (get_translation steady_service few_tokens (str ''(1) one'')
        (snd (get_translation steady_service few_tokens (str ''(1) one'') sample_translator))))
     = 50 * 4 + 50 * 4"
proof -
  let ?g = "\<lambda>s. get_translation steady_service few_tokens (str ''(1) one'') s"
  have m: "contains (str ''16k'') (model sample_completion)"
    "prompt_tokens (usage sample_completion) = 100"
    "completion_tokens (usage sample_completion) = 50"
    by (simp_all add: sample_completion_def str_def)
  have k0: "keys sample_translator \<noteq> []" "prompt_spent sample_translator = 0"
    "completion_spent sample_translator = 0"
    by (simp_all add: sample_translator_eq)
  from steady_returns [OF k0(1), of few_tokens "str ''(1) one''"]
    cost_ledger [of sample_translator steady_service few_tokens "str ''(1) one''"] m k0
  have first: "prompt_spent (snd (?g sample_translator)) = 300
      \<and> completion_spent (snd (?g sample_translator)) = 200"
    by auto
  have "keys (snd (?g sample_translator)) \<noteq> []"
    using get_translation_effect [OF k0(1), of steady_service few_tokens "str ''(1) one''"] k0(1)
    by (cases "?g sample_translator") simp
  from steady_returns [OF this, of few_tokens "str ''(1) one''"]
    cost_ledger [of "snd (?g sample_translator)" steady_service few_tokens "str ''(1) one''"] m first
  have "prompt_spent (snd (?g (snd (?g sample_translator)))) = 600
      \<and> completion_spent (snd (?g (snd (?g sample_translator)))) = 400"
    by auto
  with first show ?thesis by simp
qed

section \<open>Model routing\<close>

text \<open>
  C9. \<open>create_chat_completion_2pass\<close> sends exactly one request. With a deployment id
  set (a non-empty string) the request goes to that engine, whatever the token count.
  Without one, the request goes to \<open>gpt-3.5-turbo-16k\<close> when the token count of system
  message, translation prompt, text and \<open>"OK"\<close> exceeds 1200, and to \<open>gpt-3.5-turbo\<close>
  otherwise.
\<close>

theorem create_chat_completion_2pass_routing:
  "\<exists>req.
     create_chat_completion_2pass svc count_tokens text s
       = (svc (length (requests s)) req, s\<lparr>requests := requests s @ [req]\<rparr>)
     \<and> (\<forall>d. deployment_id s = Some d \<and> d \<noteq> [] \<longrightarrow> req_target req = Engine d)
     \<and> ((deployment_id s = None \<or> deployment_id s = Some [])
          \<and> 1200 < count_tokens (system_message @ translation_prompt (language s) @ text @ str ''OK'')
          \<longrightarrow> req_target req = Model (str ''gpt-3.5-turbo-16k''))
     \<and> ((deployment_id s = None \<or> deployment_id s = Some [])
          \<and> count_tokens (system_message @ translation_prompt (language s) @ text @ str ''OK'') \<le> 1200
          \<longrightarrow> req_target req = Model (str ''gpt-3.5-turbo''))"
  unfolding create_chat_completion_2pass_def Let_def
  by (rule exI, rule conjI, rule refl) (auto split: option.splits)

theorem create_chat_completion_2pass_routing_witness:
  "(\<exists>req. snd (create_chat_completion_2pass steady_service many_tokens (str ''(1) one'') sample_translator)
            = sample_translator\<lparr>requests := [req]\<rparr>
          \<and> req_target req = Model (str ''gpt-3.5-turbo-16k''))
   \<and> (\<exists>req. snd (create_chat_completion_2pass steady_service few_tokens (str ''(1) one'') sample_translator)
            = sample_translator\<lparr>requests := [req]\<rparr>
          \<and> req_target req = Model (str ''gpt-3.5-turbo''))
   \<and> (\<exists>req. snd (create_chat_completion_2pass steady_service many_tokens (str ''(1) one'')
                   (set_deployment_id (str ''private'') sample_translator))
            = (set_deployment_id (str ''private'') sample_translator)\<lparr>requests := [req]\<rparr>
          \<and> req_target req = Engine (str ''private''))"
proof -
  have d0: "deployment_id sample_translator = None" "requests sample_translator = []"
    by (simp_all add: sample_translator_eq)
  have d1: "deployment_id (set_deployment_id (str ''private'') sample_translator) = Some (str ''private'')"
    "requests (set_deployment_id (str ''private'') sample_translator) = []"
    "str ''private'' \<noteq> []"
    by (simp_all add: set_deployment_id_def sample_translator_eq str_def)
  from create_chat_completion_2pass_routing
         [of steady_service many_tokens "str ''(1) one''" sample_translator] d0
  have a: "\<exists>req. snd (create_chat_completion_2pass steady_service many_tokens (str ''(1) one'') sample_translator)
            = sample_translator\<lparr>requests := [req]\<rparr>
          \<and> req_target req = Model (str ''gpt-3.5-turbo-16k'')"
    by (auto simp: many_tokens_def)
  from create_chat_completion_2pass_routing
         [of steady_service few_tokens "str ''(1) one''" sample_translator] d0
  have b: "\<exists>req. snd (create_chat_completion_2pass steady_service few_tokens (str ''(1) one'') sample_translator)
            = sample_translator\<lparr>requests := [req]\<rparr>
          \<and> req_target req = Model (str ''gpt-3.5-turbo'')"
    by (auto simp: few_tokens_def)
  from create_chat_completion_2pass_routing
         [of steady_service many_tokens "str ''(1) one''"
             "set_deployment_id (str ''private'') sample_translator"] d1
  have c: "\<exists>req. snd (create_chat_completion_2pass steady_service many_tokens (str ''(1) one'')
                   (set_deployment_id (str ''private'') sample_translator))
            = (set_deployment_id (str ''private'') sample_translator)\<lparr>requests := [req]\<rparr>
          \<and> req_target req = Engine (str ''private'')"
    by auto
  from a b c show ?thesis by blast
qed

section \<open>Ordinal stripping\<close>

text \<open>
  C10. The ordinal-stripping step maps each of \<open>"(3) hello"\<close>, \<open>"3. hello"\<close> and
  \<open>"3 hello"\<close> to \<open>"hello"\<close>.
\<close>

theorem strip_ordinal_examples:
  "strip_ordinal (str ''(3) hello'') = str ''hello''
   \<and> strip_ordinal (str ''3. hello'') = str ''hello''
   \<and> strip_ordinal (str ''3 hello'') = str ''hello''"
  by (simp add: strip_ordinal_def str_def is_digit_def is_space_def)

end
